theory Spec2Isabelle
  imports Complex_Main "HOL-Library.AList"
begin

section \<open>Analytics aggregator (EcommerceAnalytics, fetchAnalyticsData)\<close>

text \<open>
  The aggregation is a pure transform of the fetched order page, the user statistics and
  the wall clock. JavaScript numbers are modelled as exact reals: rounding, NaN and the
  infinities of IEEE doubles are outside the model. Optional properties
  (\<^verbatim>\<open>created_at?\<close>, \<^verbatim>\<open>order_items?\<close>, \<^verbatim>\<open>products?\<close>) are options.
\<close>

subsection \<open>Data\<close>

record product_names =
  name_ar :: "string option"
  name_en :: "string option"

record order_item =
  products :: "product_names option"
  price :: real
  quantity :: real

record order =
  total_price :: real
  created_at :: "string option"
  order_items :: "order_item list option"

record month_entry =
  month :: string
  revenue :: real
  orders :: nat

record top_entry =
  name :: string
  sales :: real
  quantity' :: real

subsection \<open>Revenue, average order value, conversion rate\<close>

text \<open>\<^verbatim>\<open>orders.orders.reduce((sum, order) => sum + order.total_price, 0)\<close>\<close>

definition totalRevenue :: "order list \<Rightarrow> real" where
  "totalRevenue os = foldl (\<lambda>sum order. sum + total_price order) 0 os"

text \<open>\<^verbatim>\<open>orders.orders.length > 0 ? totalRevenue / orders.orders.length : 0\<close>\<close>

definition averageOrderValue :: "order list \<Rightarrow> real" where
  "averageOrderValue os =
     (if length os > 0 then totalRevenue os / real (length os) else 0)"

text \<open>
  \<^verbatim>\<open>userStats.total > 0 ? (orders.orders.length / userStats.total) * 100 : 0\<close>.
  The user total is the row count reported by the user statistics, a natural number.
\<close>

definition conversionRate :: "order list \<Rightarrow> nat \<Rightarrow> real" where
  "conversionRate os userTotal =
     (if userTotal > 0 then (real (length os) / real userTotal) * 100 else 0)"

subsection \<open>The host's Date object\<close>

text \<open>
  A Date holds a time value: milliseconds since the epoch, in UTC. The field accessors
  follow ECMA-262 (Day, TimeWithinDay, YearFromTime, MonthFromTime, DateFromTime,
  MakeDay, MakeDate, LocalTime, UTC); the year, month and day of a day number are
  computed by the usual closed form for the proleptic Gregorian calendar. TimeClip is
  left out: the wall clock is far inside the representable range. The host's time zone
  and the locale's month label are parameters.
\<close>

record host =
  LocalTZA :: "int \<Rightarrow> bool \<Rightarrow> int"
  monthLabel :: "int \<Rightarrow> int \<Rightarrow> string"

definition msPerDay :: int where
  "msPerDay = 86400000"

definition Day :: "int \<Rightarrow> int" where
  "Day t = t div msPerDay"

definition TimeWithinDay :: "int \<Rightarrow> int" where
  "TimeWithinDay t = t mod msPerDay"

text \<open>Day number (days since 1970-01-01) to (year, month index 0..11, day of month 1..31).\<close>

definition civil_from_days :: "int \<Rightarrow> int \<times> int \<times> int" where
  "civil_from_days z =
     (let z1 = z + 719468;
          era = z1 div 146097;
          doe = z1 - era * 146097;
          yoe = (doe - doe div 1460 + doe div 36524 - doe div 146096) div 365;
          y = yoe + era * 400;
          doy = doe - (365 * yoe + yoe div 4 - yoe div 100);
          mp = (5 * doy + 2) div 153;
          d = doy - (153 * mp + 2) div 5 + 1;
          m = (if mp < 10 then mp + 3 else mp - 9)
      in (if m \<le> 2 then y + 1 else y, m - 1, d))"

text \<open>Day number of the first day of month index \<open>mn\<close> (0..11) of year \<open>ym\<close>.\<close>

definition days_from_civil :: "int \<Rightarrow> int \<Rightarrow> int" where
  "days_from_civil ym mn =
     (let m = mn + 1;
          y = (if m \<le> 2 then ym - 1 else ym);
          era = y div 400;
          yoe = y - era * 400;
          doy = (153 * (if m > 2 then m - 3 else m + 9) + 2) div 5;
          doe = yoe * 365 + yoe div 4 - yoe div 100 + doy
      in era * 146097 + doe - 719468)"

definition YearFromTime :: "int \<Rightarrow> int" where
  "YearFromTime t = fst (civil_from_days (Day t))"

definition MonthFromTime :: "int \<Rightarrow> int" where
  "MonthFromTime t = fst (snd (civil_from_days (Day t)))"

definition DateFromTime :: "int \<Rightarrow> int" where
  "DateFromTime t = snd (snd (civil_from_days (Day t)))"

text \<open>
  MakeDay(year, month, date): the month index may lie outside 0..11 and carries into the
  year; a day of month beyond the month's length runs on into the following month.
\<close>

definition MakeDay :: "int \<Rightarrow> int \<Rightarrow> int \<Rightarrow> int" where
  "MakeDay yr mo dt = days_from_civil (yr + mo div 12) (mo mod 12) + dt - 1"

definition MakeDate :: "int \<Rightarrow> int \<Rightarrow> int" where
  "MakeDate dy tm = dy * msPerDay + tm"

definition LocalTime :: "host \<Rightarrow> int \<Rightarrow> int" where
  "LocalTime h t = t + LocalTZA h t True"

definition UTC :: "host \<Rightarrow> int \<Rightarrow> int" where
  "UTC h t = t - LocalTZA h t False"

text \<open>\<^verbatim>\<open>date.getMonth()\<close> and \<^verbatim>\<open>date.setMonth(m)\<close> work on the local fields.\<close>

definition getMonth :: "host \<Rightarrow> int \<Rightarrow> int" where
  "getMonth h t = MonthFromTime (LocalTime h t)"

definition setMonth :: "host \<Rightarrow> int \<Rightarrow> int \<Rightarrow> int" where
  "setMonth h t m =
     (let tl = LocalTime h t;
          newDate = MakeDate (MakeDay (YearFromTime tl) m (DateFromTime tl)) (TimeWithinDay tl)
      in UTC h newDate)"

text \<open>\<^verbatim>\<open>date.toISOString()\<close> prints the UTC fields.\<close>

definition digit :: "int \<Rightarrow> char" where
  "digit n = ''0123456789'' ! nat (n mod 10)"

definition pad2 :: "int \<Rightarrow> string" where
  "pad2 n = [digit (n div 10), digit n]"

definition pad3 :: "int \<Rightarrow> string" where
  "pad3 n = [digit (n div 100), digit (n div 10), digit n]"

definition isoYear :: "int \<Rightarrow> string" where
  "isoYear y =
     (if 0 \<le> y \<and> y \<le> 9999 then pad2 (y div 100) @ pad2 y
      else (if y < 0 then ''-'' else ''+'') @ pad2 (\<bar>y\<bar> div 10000) @ pad2 (\<bar>y\<bar> div 100) @ pad2 \<bar>y\<bar>)"

definition toISOString :: "int \<Rightarrow> string" where
  "toISOString t =
     (let tm = TimeWithinDay t
      in isoYear (YearFromTime t) @ ''-'' @ pad2 (MonthFromTime t + 1) @ ''-''
         @ pad2 (DateFromTime t) @ ''T'' @ pad2 (tm div 3600000) @ '':''
         @ pad2 (tm div 60000 mod 60) @ '':'' @ pad2 (tm div 1000 mod 60) @ ''.''
         @ pad3 (tm mod 1000) @ ''Z'')"

text \<open>
  \<^verbatim>\<open>date.toLocaleDateString("ar-EG", {month: "short", year: "numeric"})\<close>: the locale's
  label of the local year and month.
\<close>

definition toLocaleDateString :: "host \<Rightarrow> int \<Rightarrow> string" where
  "toLocaleDateString h t =
     (let tl = LocalTime h t in monthLabel h (YearFromTime tl) (MonthFromTime tl))"

subsection \<open>Sales by month\<close>

text \<open>\<^verbatim>\<open>s.startsWith(k)\<close> and \<^verbatim>\<open>s.slice(0, 7)\<close> on strings.\<close>

definition startsWith :: "string \<Rightarrow> string \<Rightarrow> bool" where
  "startsWith s k = (take (length k) s = k)"

text \<open>
  The body of the \<^verbatim>\<open>Array.from({length: 6}, (_, i) => ...)\<close> callback, in its steps:
  the date shifted back by \<open>i\<close> months, its key, the orders of the key, the entry.
\<close>

definition bucketDate :: "host \<Rightarrow> int \<Rightarrow> nat \<Rightarrow> int" where
  "bucketDate h now i = setMonth h now (getMonth h now - int i)"

definition monthKey :: "host \<Rightarrow> int \<Rightarrow> nat \<Rightarrow> string" where
  "monthKey h now i = take 7 (toISOString (bucketDate h now i))"

definition monthOrders :: "host \<Rightarrow> int \<Rightarrow> order list \<Rightarrow> nat \<Rightarrow> order list" where
  "monthOrders h now os i =
     filter (\<lambda>order. case created_at order of
                        None \<Rightarrow> False
                      | Some c \<Rightarrow> startsWith c (monthKey h now i)) os"

definition monthBucket :: "host \<Rightarrow> int \<Rightarrow> order list \<Rightarrow> nat \<Rightarrow> month_entry" where
  "monthBucket h now os i =
     \<lparr> month = toLocaleDateString h (bucketDate h now i),
       revenue = foldl (\<lambda>sum order. sum + total_price order) 0 (monthOrders h now os i),
       orders = length (monthOrders h now os i) \<rparr>"

definition salesByMonth :: "host \<Rightarrow> int \<Rightarrow> order list \<Rightarrow> month_entry list" where
  "salesByMonth h now os = rev (map (monthBucket h now os) [0..<6])"

subsection \<open>Top products\<close>

text \<open>
  \<^verbatim>\<open>item.products?.name_ar || item.products?.name_en || "Unknown Product"\<close>:
  \<^verbatim>\<open>||\<close> yields its left operand when that is truthy. A name is a string, null or
  undefined; it is truthy when it is a non-empty string.
\<close>

definition truthy :: "string option \<Rightarrow> bool" where
  "truthy v = (case v of None \<Rightarrow> False | Some s \<Rightarrow> s \<noteq> [])"

definition productName :: "order_item \<Rightarrow> string" where
  "productName item =
     (let ar = (case products item of None \<Rightarrow> None | Some p \<Rightarrow> name_ar p);
          en = (case products item of None \<Rightarrow> None | Some p \<Rightarrow> name_en p)
      in case ar of
           Some a \<Rightarrow> if a \<noteq> [] then a
                     else (case en of Some e \<Rightarrow> if e \<noteq> [] then e else ''Unknown Product''
                                    | None \<Rightarrow> ''Unknown Product'')
         | None \<Rightarrow> (case en of Some e \<Rightarrow> if e \<noteq> [] then e else ''Unknown Product''
                              | None \<Rightarrow> ''Unknown Product''))"

text \<open>
  \<^verbatim>\<open>productSales\<close> is a Map, which keeps its keys in insertion order: an association
  list, where \<open>AList.update\<close> replaces the entry of a key in place and puts a new key last.
  The body of the inner \<^verbatim>\<open>forEach\<close>:
\<close>

definition addItem :: "(string \<times> top_entry) list \<Rightarrow> order_item \<Rightarrow> (string \<times> top_entry) list" where
  "addItem productSales item =
     (case map_of productSales (productName item) of
        Some existing \<Rightarrow>
          AList.update (productName item)
            (existing\<lparr> sales := sales existing + price item * quantity item,
                       quantity' := quantity' existing + quantity item \<rparr>) productSales
      | None \<Rightarrow>
          AList.update (productName item)
            \<lparr> name = productName item,
              sales = price item * quantity item,
              quantity' = quantity item \<rparr> productSales)"

text \<open>The two nested \<^verbatim>\<open>forEach\<close> loops; an order without \<^verbatim>\<open>order_items\<close> adds nothing.\<close>

definition addOrder :: "(string \<times> top_entry) list \<Rightarrow> order \<Rightarrow> (string \<times> top_entry) list" where
  "addOrder productSales order =
     (case order_items order of
        None \<Rightarrow> productSales
      | Some its \<Rightarrow> foldl addItem productSales its)"

definition productSales :: "order list \<Rightarrow> (string \<times> top_entry) list" where
  "productSales os = foldl addOrder [] os"

text \<open>
  \<^verbatim>\<open>Array.from(productSales.values()).sort((a, b) => b.sales - a.sales).slice(0, 5)\<close>:
  the sort is stable, so it is the stable sort on the negated sales.
\<close>

definition topProducts :: "order list \<Rightarrow> top_entry list" where
  "topProducts os = take 5 (sort_key (\<lambda>e. - sales e) (map snd (productSales os)))"

text \<open>Every item of every order, in the order the loops visit them.\<close>

definition allItems :: "order list \<Rightarrow> order_item list" where
  "allItems os = concat (map (\<lambda>order. case order_items order of None \<Rightarrow> [] | Some its \<Rightarrow> its) os)"

section \<open>Product repository (apiProducts)\<close>

subsection \<open>Data\<close>

text \<open>The \<^verbatim>\<open>ProductAttribute\<close> interface; its \<^verbatim>\<open>id\<close> is written \<open>attribute_id\<close>.\<close>

record ProductAttribute =
  attribute_id :: "string option"
  product_id :: "string option"
  attribute_name :: string
  attribute_value :: string

text \<open>
  The \<^verbatim>\<open>Product\<close> interface. \<^verbatim>\<open>Partial<Product>\<close> makes the three required
  properties optional as well, so the record is parametric in their types. \<^verbatim>\<open>id\<close>
  and the properties that share a name with a property of an order are primed.
\<close>

record ('s, 'n) product_fields =
  id' :: "string option"
  name_ar' :: 's
  name_en' :: 's
  description_ar :: "string option"
  description_en :: "string option"
  price' :: 'n
  offer_price :: "real option"
  stock :: "real option"
  image_url :: "string list option"
  category_id :: "string option"
  is_best_seller :: "bool option"
  limited_time_offer :: "bool option"
  created_at' :: "string option"
  updated_at :: "string option"
  attributes :: "ProductAttribute list option"

type_synonym Product = "(string, real) product_fields"

type_synonym PartialProduct = "(string option, real option) product_fields"

text \<open>The error object of a backend reply.\<close>

datatype backend_error = BackendError string

text \<open>
  The requests the repository sends, one constructor for each query it builds:
  the insert, update and delete of a \<^verbatim>\<open>products\<close> row, the select of a row's
  \<^verbatim>\<open>image_url\<close>, the insert and delete of \<^verbatim>\<open>product_attributes\<close> rows, and the
  removal of an object of the \<^verbatim>\<open>product-images\<close> bucket.
\<close>

datatype request =
    ProductsInsert Product
  | ProductsUpdate string PartialProduct
  | ProductsDelete string
  | ProductsSelectImageUrl string
  | AttributesInsert "ProductAttribute list"
  | AttributesDelete string
  | StorageRemove string

text \<open>
  The backend is a collaborator: each reply is either an error or the data, and may
  depend on every request sent before (the first argument).
\<close>

record backend =
  products_insert :: "request list \<Rightarrow> Product \<Rightarrow> backend_error + Product"
  products_update :: "request list \<Rightarrow> string \<Rightarrow> PartialProduct \<Rightarrow> backend_error + Product"
  products_delete :: "request list \<Rightarrow> string \<Rightarrow> backend_error + unit"
  products_select_image_url :: "request list \<Rightarrow> string \<Rightarrow> backend_error + string list option"
  attributes_insert :: "request list \<Rightarrow> ProductAttribute list \<Rightarrow> backend_error + unit"
  attributes_delete :: "request list \<Rightarrow> string \<Rightarrow> backend_error + unit"
  storage_remove :: "request list \<Rightarrow> string \<Rightarrow> backend_error + unit"

text \<open>
  The lines written with \<^verbatim>\<open>console.error\<close>, by the place that writes them: the failed
  product insert, the failed attribute insert of a create, the failed image-list fetch,
  a failed image removal, the failed product update, the failed attribute insert of an
  update.
\<close>

datatype log_entry =
    LogCreateProduct backend_error
  | LogCreateAttributes backend_error
  | LogFetch backend_error
  | LogRemoveImage backend_error
  | LogUpdateProduct backend_error
  | LogUpdateAttributes backend_error

text \<open>
  What an operation throws: the four \<^verbatim>\<open>new Error(...)\<close> of the repository, and the
  TypeError of \<^verbatim>\<open>new URL(...)\<close> on a string that is not an absolute URL.
\<close>

datatype error =
    CreateFailed
  | FetchFailed
  | DeleteFailed
  | UpdateFailed
  | InvalidURL

text \<open>The effects of an operation: the requests sent and the lines logged, oldest first.\<close>

record world =
  trace :: "request list"
  console :: "log_entry list"

definition send :: "request \<Rightarrow> world \<Rightarrow> world" where
  "send r w = w\<lparr> trace := trace w @ [r] \<rparr>"

definition console_error :: "log_entry \<Rightarrow> world \<Rightarrow> world" where
  "console_error l w = w\<lparr> console := console w @ [l] \<rparr>"

subsection \<open>createProduct\<close>

text \<open>
  \<^verbatim>\<open>const { attributes, ...product } = productData\<close>: the rest object has every
  property but \<^verbatim>\<open>attributes\<close>.
\<close>

definition without_attributes :: "('s, 'n) product_fields \<Rightarrow> ('s, 'n) product_fields" where
  "without_attributes p = p\<lparr> attributes := None \<rparr>"

definition createProduct :: "backend \<Rightarrow> Product \<Rightarrow> world \<Rightarrow> (error + Product) \<times> world" where
  "createProduct be productData w =
     (let product = without_attributes productData;
          w1 = send (ProductsInsert product) w
      in case products_insert be (trace w) product of
           Inl productError \<Rightarrow> (Inl CreateFailed, console_error (LogCreateProduct productError) w1)
         | Inr createdProduct \<Rightarrow>
             (case attributes productData of
                None \<Rightarrow> (Inr createdProduct, w1)
              | Some attrs \<Rightarrow>
                  if length attrs > 0 then
                    (let attributesWithProductId =
                           map (\<lambda>attr. attr\<lparr> product_id := id' createdProduct \<rparr>) attrs;
                         w2 = send (AttributesInsert attributesWithProductId) w1
                     in case attributes_insert be (trace w1) attributesWithProductId of
                          Inl attributesError \<Rightarrow>
                            (Inr createdProduct, console_error (LogCreateAttributes attributesError) w2)
                        | Inr _ \<Rightarrow> (Inr createdProduct, w2))
                  else (Inr createdProduct, w1)))"

subsection \<open>deleteProduct\<close>

text \<open>
  \<^verbatim>\<open>path.match(/\/storage\/v1\/object\/public\/product-images\/(.+)/)?.[1]\<close>: the
  leftmost place where the prefix is followed by at least one character other than a
  line break; the group is the run of such characters after the prefix. The line breaks
  of a pathname's characters are LF and CR.
\<close>

definition publicPrefix :: string where
  "publicPrefix = ''/storage/v1/object/public/product-images/''"

definition dot :: "char \<Rightarrow> bool" where
  "dot c = (c \<noteq> CHR 0x0A \<and> c \<noteq> CHR 0x0D)"

fun filePathOf :: "string \<Rightarrow> string option" where
  "filePathOf [] = None"
| "filePathOf (c # cs) =
     (let g = takeWhile dot (drop (length publicPrefix) (c # cs))
      in if startsWith (c # cs) publicPrefix \<and> g \<noteq> [] then Some g else filePathOf cs)"

text \<open>
  The \<^verbatim>\<open>for (const imageUrl of product.image_url)\<close> loop. \<open>pathname\<close> is
  \<^verbatim>\<open>new URL(imageUrl).pathname\<close>, a parameter: \<open>None\<close> where the constructor throws.
  A thrown TypeError leaves the loop and the operation.
\<close>

fun removeImages :: "(string \<Rightarrow> string option) \<Rightarrow> backend \<Rightarrow> string list \<Rightarrow> world \<Rightarrow> (error + unit) \<times> world" where
  "removeImages pathname be [] w = (Inr (), w)"
| "removeImages pathname be (imageUrl # rest) w =
     (case pathname imageUrl of
        None \<Rightarrow> (Inl InvalidURL, w)
      | Some path \<Rightarrow>
          (case filePathOf path of
             None \<Rightarrow> removeImages pathname be rest w
           | Some filePath \<Rightarrow>
               if filePath \<noteq> [] then
                 (let w1 = send (StorageRemove filePath) w
                  in case storage_remove be (trace w) filePath of
                       Inl storageError \<Rightarrow>
                         removeImages pathname be rest (console_error (LogRemoveImage storageError) w1)
                     | Inr _ \<Rightarrow> removeImages pathname be rest w1)
               else removeImages pathname be rest w))"

text \<open>The final delete of the row; its error is thrown, not logged.\<close>

definition deleteRow :: "backend \<Rightarrow> string \<Rightarrow> world \<Rightarrow> (error + unit) \<times> world" where
  "deleteRow be ident w =
     (case products_delete be (trace w) ident of
        Inl deleteError \<Rightarrow> (Inl DeleteFailed, send (ProductsDelete ident) w)
      | Inr _ \<Rightarrow> (Inr (), send (ProductsDelete ident) w))"

definition deleteProduct :: "(string \<Rightarrow> string option) \<Rightarrow> backend \<Rightarrow> string \<Rightarrow> world \<Rightarrow> (error + unit) \<times> world" where
  "deleteProduct pathname be ident w =
     (let w1 = send (ProductsSelectImageUrl ident) w
      in case products_select_image_url be (trace w) ident of
           Inl fetchError \<Rightarrow> (Inl FetchFailed, console_error (LogFetch fetchError) w1)
         | Inr product_image_url \<Rightarrow>
             (case product_image_url of
                None \<Rightarrow> deleteRow be ident w1
              | Some urls \<Rightarrow>
                  if length urls > 0 then
                    (case removeImages pathname be urls w1 of
                       (Inl e, w2) \<Rightarrow> (Inl e, w2)
                     | (Inr _, w2) \<Rightarrow> deleteRow be ident w2)
                  else deleteRow be ident w1))"

subsection \<open>updateProduct\<close>

text \<open>
  The reply of the delete of the old attribute rows is awaited and dropped: the source
  binds neither its data nor its error.
\<close>

definition updateProduct :: "backend \<Rightarrow> string \<Rightarrow> PartialProduct \<Rightarrow> world \<Rightarrow> (error + Product) \<times> world" where
  "updateProduct be ident updatedProduct w =
     (let product = without_attributes updatedProduct;
          w1 = send (ProductsUpdate ident product) w
      in case products_update be (trace w) ident product of
           Inl err \<Rightarrow> (Inl UpdateFailed, console_error (LogUpdateProduct err) w1)
         | Inr data \<Rightarrow>
             (case attributes updatedProduct of
                None \<Rightarrow> (Inr data, w1)
              | Some attrs \<Rightarrow>
                  (let w2 = send (AttributesDelete ident) w1
                   in if length attrs > 0 then
                        (let attributesWithProductId =
                               map (\<lambda>attr. attr\<lparr> product_id := Some ident \<rparr>) attrs;
                             w3 = send (AttributesInsert attributesWithProductId) w2
                         in case attributes_insert be (trace w2) attributesWithProductId of
                              Inl attributesError \<Rightarrow>
                                (Inr data, console_error (LogUpdateAttributes attributesError) w3)
                            | Inr _ \<Rightarrow> (Inr data, w3))
                      else (Inr data, w2))))"

section \<open>Notions used to state the properties\<close>

subsection \<open>Top products\<close>

text \<open>The items that resolve to a display name, among a list of items.\<close>

definition itemsNamed :: "string \<Rightarrow> order_item list \<Rightarrow> order_item list" where
  "itemsNamed n its = filter (\<lambda>item. productName item = n) its"

text \<open>The sales and the quantity the Map holds for a name, 0 for a name it does not hold.\<close>

definition salesOf :: "(string \<times> top_entry) list \<Rightarrow> string \<Rightarrow> real" where
  "salesOf m k = (case map_of m k of None \<Rightarrow> 0 | Some e \<Rightarrow> sales e)"

definition quantityOf :: "(string \<times> top_entry) list \<Rightarrow> string \<Rightarrow> real" where
  "quantityOf m k = (case map_of m k of None \<Rightarrow> 0 | Some e \<Rightarrow> quantity' e)"

text \<open>The invariant of the Map: one entry for a key, and the entry carries its key as name.\<close>

definition named :: "(string \<times> top_entry) list \<Rightarrow> bool" where
  "named m = (distinct (map fst m) \<and> (\<forall>k e. map_of m k = Some e \<longrightarrow> name e = k))"

subsection \<open>deleteProduct\<close>

text \<open>
  The object paths of a list of stored URLs: of each URL that parses and matches, the
  group of the match; the other URLs give none.
\<close>

definition removals :: "(string \<Rightarrow> string option) \<Rightarrow> string list \<Rightarrow> string list" where
  "removals pathname urls =
     List.map_filter (\<lambda>u. case pathname u of None \<Rightarrow> None | Some p \<Rightarrow> filePathOf p) urls"

text \<open>
  The lines logged when the object paths \<open>fs\<close> are removed one after the other, the
  requests \<open>tr\<close> having been sent before: one line for each removal the backend fails.
\<close>

fun removalLog :: "backend \<Rightarrow> request list \<Rightarrow> string list \<Rightarrow> log_entry list" where
  "removalLog be tr [] = []"
| "removalLog be tr (f # fs) =
     (case storage_remove be tr f of Inl e \<Rightarrow> [LogRemoveImage e] | Inr _ \<Rightarrow> [])
     @ removalLog be (tr @ [StorageRemove f]) fs"

section \<open>Concrete inputs\<close>

subsection \<open>Analytics\<close>

text \<open>
  A host in the UTC time zone, with a plain label; the instant 2024-03-31T12:00:00.000Z;
  an order of February 2024.
\<close>

definition utc_host :: host where
  "utc_host = \<lparr> LocalTZA = (\<lambda>t isUTC. 0), monthLabel = (\<lambda>y m. isoYear y @ ''/'' @ pad2 (m + 1)) \<rparr>"

definition march31 :: int where
  "march31 = 1711886400000"

definition februaryOrder :: order where
  "februaryOrder =
     \<lparr> total_price = 100, created_at = Some ''2024-02-10T09:30:00+00:00'', order_items = None \<rparr>"

text \<open>Two orders with four items of three display names.\<close>

definition item_A2 :: order_item where
  "item_A2 = \<lparr> products = Some \<lparr> name_ar = Some ''A'', name_en = Some ''a'' \<rparr>,
               price = 50, quantity = 2 \<rparr>"

definition item_A1 :: order_item where
  "item_A1 = \<lparr> products = Some \<lparr> name_ar = Some ''A'', name_en = None \<rparr>,
               price = 50, quantity = 1 \<rparr>"

definition item_B3 :: order_item where
  "item_B3 = \<lparr> products = Some \<lparr> name_ar = Some [], name_en = Some ''B'' \<rparr>,
               price = 60, quantity = 3 \<rparr>"

definition item_U1 :: order_item where
  "item_U1 = \<lparr> products = None, price = 5, quantity = 1 \<rparr>"

definition twoOrders :: "order list" where
  "twoOrders =
     [\<lparr> total_price = 100, created_at = Some ''2024-01-15'', order_items = Some [item_A2] \<rparr>,
      \<lparr> total_price = 235, created_at = None, order_items = Some [item_B3, item_A1, item_U1] \<rparr>]"

text \<open>
  Two orders with seven items of six display names, of sales 1, 2, 3, 4, 5 and 12: one
  name more than the ranking keeps.
\<close>

definition pricedItem :: "string \<Rightarrow> real \<Rightarrow> real \<Rightarrow> order_item" where
  "pricedItem n p q = \<lparr> products = Some \<lparr> name_ar = Some n, name_en = None \<rparr>, price = p, quantity = q \<rparr>"

definition sixNames :: "order list" where
  "sixNames =
     [\<lparr> total_price = 21, created_at = Some ''2024-01-15'',
        order_items = Some [pricedItem ''P1'' 1 1, pricedItem ''P2'' 2 1, pricedItem ''P3'' 3 1,
                            pricedItem ''P4'' 4 1, pricedItem ''P5'' 5 1, pricedItem ''P6'' 6 1] \<rparr>,
      \<lparr> total_price = 6, created_at = Some ''2024-01-16'',
        order_items = Some [pricedItem ''P6'' 6 1] \<rparr>]"

subsection \<open>Repository\<close>

definition attr0 :: ProductAttribute where
  "attr0 = \<lparr> attribute_id = None, product_id = None,
             attribute_name = ''color'', attribute_value = ''red'' \<rparr>"

definition product0 :: Product where
  "product0 =
     \<lparr> id' = None, name_ar' = ''qamis'', name_en' = ''shirt'',
       description_ar = None, description_en = None, price' = 100, offer_price = None,
       stock = Some 5, image_url = Some [], category_id = None, is_best_seller = None,
       limited_time_offer = None, created_at' = None, updated_at = None,
       attributes = Some [attr0] \<rparr>"

definition update0 :: PartialProduct where
  "update0 =
     \<lparr> id' = None, name_ar' = None, name_en' = None,
       description_ar = None, description_en = None, price' = Some 120, offer_price = None,
       stock = None, image_url = None, category_id = None, is_best_seller = None,
       limited_time_offer = None, created_at' = None, updated_at = None,
       attributes = Some [attr0] \<rparr>"

definition row0 :: Product where
  "row0 = (without_attributes product0)\<lparr> id' := Some ''p1'' \<rparr>"

definition err0 :: backend_error where
  "err0 = BackendError ''request failed''"

text \<open>
  Stored strings: three public URLs of objects of the bucket, one URL of another site,
  and a relative path, which is no absolute URL. \<open>pathname0\<close> is
  \<^verbatim>\<open>new URL(u).pathname\<close> on these strings: the text after the origin for an URL of one
  of the two origins, and the TypeError for every other string.
\<close>

definition url_a :: string where
  "url_a = ''https://shop.example.co/storage/v1/object/public/product-images/products/a.png''"

definition url_b :: string where
  "url_b = ''https://shop.example.co/storage/v1/object/public/product-images/products/b.png''"

definition url_c :: string where
  "url_c = ''https://shop.example.co/storage/v1/object/public/product-images/products/c.png''"

definition url_other :: string where
  "url_other = ''https://cdn.example.com/img/d.png''"

definition relative_path :: string where
  "relative_path = ''products/e.png''"

definition pathname0 :: "string \<Rightarrow> string option" where
  "pathname0 u =
     (if startsWith u ''https://shop.example.co/'' \<or> startsWith u ''https://cdn.example.com/''
      then Some (drop 23 u) else None)"

text \<open>
  A backend that accepts every request: an insert gives the row the identifier p1, an
  update replies with \<open>row0\<close>, and no images are stored. The backends of the examples
  differ from it in one reply each.
\<close>

definition backend_ok :: backend where
  "backend_ok =
     \<lparr> products_insert = (\<lambda>tr p. Inr ((without_attributes p)\<lparr> id' := Some ''p1'' \<rparr>)),
       products_update = (\<lambda>tr i p. Inr row0),
       products_delete = (\<lambda>tr i. Inr ()),
       products_select_image_url = (\<lambda>tr i. Inr (Some [])),
       attributes_insert = (\<lambda>tr rows. Inr ()),
       attributes_delete = (\<lambda>tr i. Inr ()),
       storage_remove = (\<lambda>tr f. Inr ()) \<rparr>"

definition w0 :: world where
  "w0 = \<lparr> trace = [], console = [] \<rparr>"

section \<open>Properties of the analytics aggregator\<close>

lemma foldl_add_sum_list:
  "foldl (\<lambda>sum x. sum + f x) a xs = a + sum_list (map f xs)"
  by (induction xs arbitrary: a) (simp_all add: add.assoc)

lemma totalRevenue_sum_list: "totalRevenue os = sum_list (map total_price os)"
  by (simp add: totalRevenue_def foldl_add_sum_list)

text \<open>
  Claim C4. The total revenue is the sum of \<^verbatim>\<open>total_price\<close> over the fetched orders;
  the average order value is the total revenue divided by the number of fetched orders
  when there is at least one, and 0 for the empty list.
\<close>

theorem averageOrderValue_spec:
  "totalRevenue os = sum_list (map total_price os) \<and>
   (length os > 0 \<longrightarrow> averageOrderValue os = totalRevenue os / real (length os)) \<and>
   (os = [] \<longrightarrow> averageOrderValue os = 0)"
  by (simp add: totalRevenue_sum_list averageOrderValue_def)

text \<open>Two orders of 100 and 50 average 75; no order averages 0.\<close>

theorem averageOrderValue_spec_witness:
  "averageOrderValue
     [\<lparr> total_price = 100, created_at = Some ''2024-01-15'', order_items = None \<rparr>,
      \<lparr> total_price = 50, created_at = None, order_items = Some [] \<rparr>] = 75
   \<and> averageOrderValue [] = 0"
  using averageOrderValue_spec
    [of "[\<lparr> total_price = 100, created_at = Some ''2024-01-15'', order_items = None \<rparr>,
          \<lparr> total_price = 50, created_at = None, order_items = Some [] \<rparr>]"]
    averageOrderValue_spec [of "[]"]
  by simp

text \<open>
  Claim C5. The conversion rate is 0 when the user total is 0, and otherwise the number
  of fetched orders divided by the user total, times 100.
\<close>

theorem conversionRate_spec:
  "(userTotal = 0 \<longrightarrow> conversionRate os userTotal = 0) \<and>
   (userTotal \<noteq> 0 \<longrightarrow>
      conversionRate os userTotal = (real (length os) / real userTotal) * 100)"
  by (simp add: conversionRate_def)

text \<open>One order and two users give 50; one order and no user give 0.\<close>

theorem conversionRate_spec_witness:
  "conversionRate [\<lparr> total_price = 100, created_at = Some ''2024-01-15'', order_items = None \<rparr>] 2 = 50
   \<and> conversionRate [\<lparr> total_price = 100, created_at = Some ''2024-01-15'', order_items = None \<rparr>] 0 = 0"
  using conversionRate_spec
    [of 2 "[\<lparr> total_price = 100, created_at = Some ''2024-01-15'', order_items = None \<rparr>]"]
    conversionRate_spec
    [of 0 "[\<lparr> total_price = 100, created_at = Some ''2024-01-15'', order_items = None \<rparr>]"]
  by simp


lemma named_Nil: "named []"
  by (simp add: named_def)

lemma named_addItem: "named m \<Longrightarrow> named (addItem m it)"
  unfolding named_def addItem_def
  by (cases "map_of m (productName it)")
     (auto simp: distinct_update update_conv' simp del: map_of_eq_Some_iff)

lemma named_foldl_addItem: "named m \<Longrightarrow> named (foldl addItem m its)"
  by (induction its arbitrary: m) (simp_all add: named_addItem)

lemma salesOf_addItem:
  "salesOf (addItem m it) k =
     salesOf m k + (if productName it = k then price it * quantity it else 0)"
  by (simp add: salesOf_def addItem_def update_conv' split: option.splits)

lemma quantityOf_addItem:
  "quantityOf (addItem m it) k =
     quantityOf m k + (if productName it = k then quantity it else 0)"
  by (simp add: quantityOf_def addItem_def update_conv' split: option.splits)

lemma salesOf_foldl_addItem:
  "salesOf (foldl addItem m its) k =
     salesOf m k + sum_list (map (\<lambda>item. price item * quantity item) (itemsNamed k its))"
  by (induction its arbitrary: m) (simp_all add: salesOf_addItem itemsNamed_def)

lemma quantityOf_foldl_addItem:
  "quantityOf (foldl addItem m its) k =
     quantityOf m k + sum_list (map quantity (itemsNamed k its))"
  by (induction its arbitrary: m) (simp_all add: quantityOf_addItem itemsNamed_def)

lemma foldl_addOrder_allItems: "foldl addOrder m os = foldl addItem m (allItems os)"
  by (induction os arbitrary: m) (simp_all add: addOrder_def allItems_def split: option.splits)

lemma productSales_allItems: "productSales os = foldl addItem [] (allItems os)"
  by (simp add: productSales_def foldl_addOrder_allItems)

lemma named_productSales: "named (productSales os)"
  by (simp add: productSales_allItems named_foldl_addItem named_Nil)

lemma productSales_lookup:
  assumes "e \<in> set (map snd (productSales os))"
  shows "map_of (productSales os) (name e) = Some e"
proof -
  from assms obtain k where mem: "(k, e) \<in> set (productSales os)" by auto
  have nm: "named (productSales os)" by (rule named_productSales)
  then have look: "map_of (productSales os) k = Some e"
    using mem by (simp add: named_def)
  with nm have "name e = k" unfolding named_def by blast
  with look show ?thesis by simp
qed

lemma productSales_entry:
  assumes "e \<in> set (map snd (productSales os))"
  shows "sales e = sum_list (map (\<lambda>item. price item * quantity item) (itemsNamed (name e) (allItems os)))"
    and "quantity' e = sum_list (map quantity (itemsNamed (name e) (allItems os)))"
proof -
  have look: "map_of (productSales os) (name e) = Some e"
    using assms by (rule productSales_lookup)
  have "sales e = salesOf (productSales os) (name e)"
    by (simp only: salesOf_def look option.case)
  also have "\<dots> = salesOf [] (name e) + sum_list (map (\<lambda>item. price item * quantity item) (itemsNamed (name e) (allItems os)))"
    by (simp only: productSales_allItems salesOf_foldl_addItem)
  finally show "sales e = sum_list (map (\<lambda>item. price item * quantity item) (itemsNamed (name e) (allItems os)))"
    by (simp add: salesOf_def)
  have "quantity' e = quantityOf (productSales os) (name e)"
    by (simp only: quantityOf_def look option.case)
  also have "\<dots> = quantityOf [] (name e) + sum_list (map quantity (itemsNamed (name e) (allItems os)))"
    by (simp only: productSales_allItems quantityOf_foldl_addItem)
  finally show "quantity' e = sum_list (map quantity (itemsNamed (name e) (allItems os)))"
    by (simp add: quantityOf_def)
qed

lemma distinct_names_productSales: "distinct (map name (map snd (productSales os)))"
proof -
  have nm: "named (productSales os)" by (rule named_productSales)
  have "\<forall>p \<in> set (productSales os). name (snd p) = fst p"
  proof
    fix p assume "p \<in> set (productSales os)"
    then have "snd p \<in> set (map snd (productSales os))" by simp
    then have "map_of (productSales os) (name (snd p)) = Some (snd p)"
      by (rule productSales_lookup)
    moreover have "map_of (productSales os) (fst p) = Some (snd p)"
      using nm \<open>p \<in> set (productSales os)\<close> by (simp add: named_def)
    ultimately show "name (snd p) = fst p"
      using nm unfolding named_def by blast
  qed
  then have eq: "map (name \<circ> snd) (productSales os) = map fst (productSales os)"
    by simp
  have "distinct (map fst (productSales os))"
    using nm by (simp add: named_def)
  then show ?thesis by (simp only: map_map eq)
qed

lemma distinct_map_sort_key:
  assumes "distinct (map g xs)"
  shows "distinct (map g (sort_key f xs))"
  using assms by (simp add: distinct_map)

lemma sorted_desc_sort_key:
  "sorted_wrt (\<lambda>a b. sales a \<ge> sales b) (sort_key (\<lambda>e. - sales e) xs)"
proof -
  have "sorted (map (\<lambda>e. - sales e) (sort_key (\<lambda>e. - sales e) xs))"
    by (rule sorted_sort_key)
  then show ?thesis by (simp add: sorted_map sorted_wrt_iff_nth_less) 
qed

lemma keys_addItem: "fst ` set (addItem m it) = insert (productName it) (fst ` set m)"
  by (simp add: addItem_def dom_update split: option.splits)

lemma keys_foldl_addItem:
  "fst ` set (foldl addItem m its) = fst ` set m \<union> productName ` set its"
  by (induction its arbitrary: m) (simp_all add: keys_addItem)

lemma keys_productSales: "fst ` set (productSales os) = productName ` set (allItems os)"
  by (simp add: productSales_allItems keys_foldl_addItem)

lemma names_eq_keys: "map name (map snd (productSales os)) = map fst (productSales os)"
proof -
  have nm: "named (productSales os)" by (rule named_productSales)
  have "\<forall>p \<in> set (productSales os). name (snd p) = fst p"
  proof
    fix p assume "p \<in> set (productSales os)"
    then have "snd p \<in> set (map snd (productSales os))" by simp
    then have "map_of (productSales os) (name (snd p)) = Some (snd p)"
      by (rule productSales_lookup)
    moreover have "map_of (productSales os) (fst p) = Some (snd p)"
      using nm \<open>p \<in> set (productSales os)\<close> by (simp add: named_def)
    ultimately show "name (snd p) = fst p"
      using nm unfolding named_def by blast
  qed
  then show ?thesis by simp
qed

lemma length_productSales:
  "length (productSales os) = card (productName ` set (allItems os))"
proof -
  have "distinct (map fst (productSales os))"
    using named_productSales [of os] by (simp add: named_def)
  then have "card (set (map fst (productSales os))) = length (map fst (productSales os))"
    by (rule distinct_card)
  then show ?thesis by (simp add: keys_productSales)
qed

lemma names_productSales:
  "name ` set (map snd (productSales os)) = productName ` set (allItems os)"
proof -
  have "name ` set (map snd (productSales os)) = set (map name (map snd (productSales os)))"
    by (simp only: set_map)
  also have "\<dots> = set (map fst (productSales os))"
    by (simp only: names_eq_keys)
  also have "\<dots> = productName ` set (allItems os)"
    by (simp add: keys_productSales)
  finally show ?thesis .
qed

lemma length_topProducts:
  "length (topProducts os) = min 5 (card (productName ` set (allItems os)))"
  by (simp add: topProducts_def length_productSales [symmetric] min.commute)

lemma dropped_le_kept:
  assumes n: "n \<in> productName ` set (allItems os)"
      and out: "n \<notin> name ` set (topProducts os)"
      and k: "k \<in> set (topProducts os)"
  shows "sum_list (map (\<lambda>item. price item * quantity item) (itemsNamed n (allItems os))) \<le> sales k"
proof -
  let ?xs = "sort_key (\<lambda>e. - sales e) (map snd (productSales os))"
  from n obtain e where e: "e \<in> set (map snd (productSales os))" and ne: "name e = n"
    unfolding names_productSales [symmetric] by blast
  have "e \<in> set ?xs" using e by simp
  then have "e \<in> set (take 5 ?xs) \<union> set (drop 5 ?xs)"
    by (simp only: set_append [symmetric] append_take_drop_id)
  moreover have "e \<notin> set (take 5 ?xs)"
    using out ne by (auto simp: topProducts_def)
  ultimately have ed: "e \<in> set (drop 5 ?xs)" by blast
  have "sorted_wrt (\<lambda>a b. sales a \<ge> sales b) (take 5 ?xs @ drop 5 ?xs)"
    by (simp only: append_take_drop_id sorted_desc_sort_key)
  then have "\<forall>a \<in> set (take 5 ?xs). \<forall>b \<in> set (drop 5 ?xs). sales a \<ge> sales b"
    unfolding sorted_wrt_append by blast
  with ed k have "sales e \<le> sales k" by (auto simp: topProducts_def)
  moreover have "sales e = sum_list (map (\<lambda>item. price item * quantity item) (itemsNamed (name e) (allItems os)))"
    using e by (rule productSales_entry(1))
  ultimately show ?thesis using ne by simp
qed

lemma names_topProducts:
  "name ` set (topProducts os) \<subseteq> productName ` set (allItems os)"
proof -
  have "set (topProducts os) \<subseteq> set (map snd (productSales os))"
    unfolding topProducts_def
    using set_take_subset[of 5 "sort_key (\<lambda>e. - sales e) (map snd (productSales os))"] by simp
  then have "name ` set (topProducts os) \<subseteq> name ` set (map snd (productSales os))"
    by (rule image_mono)
  then show ?thesis by (simp only: names_productSales)
qed

lemma productName_cases:
  "productName item =
     (case products item of
        None \<Rightarrow> ''Unknown Product''
      | Some p \<Rightarrow>
          if truthy (name_ar p) then the (name_ar p)
          else if truthy (name_en p) then the (name_en p)
          else ''Unknown Product'')"
  by (simp add: productName_def truthy_def split: option.splits)

text \<open>
  Claim C3. The Map holds one entry for every display name that occurs among the items
  of the orders, and the top products are entries of the Map: as many as there are names,
  up to 5, sorted by sales in descending order, no two with the same name, and every name
  that is left out has sales no greater than the sales of any entry that is kept. The
  sales of an entry is the sum of price times quantity, and its quantity the sum of the
  quantities, over the items of all orders whose display name is the entry's name. The
  display name of an item is its Arabic name when that is a non-empty string, else its
  English name when that is a non-empty string, else the placeholder.
\<close>

theorem topProducts_spec:
  "length (topProducts os) \<le> 5 \<and>
   sorted_wrt (\<lambda>a b. sales a \<ge> sales b) (topProducts os) \<and>
   distinct (map name (topProducts os)) \<and>
   (\<forall>e \<in> set (topProducts os).
      sales e = sum_list (map (\<lambda>item. price item * quantity item) (itemsNamed (name e) (allItems os))) \<and>
      quantity' e = sum_list (map quantity (itemsNamed (name e) (allItems os)))) \<and>
   (\<forall>item p a. products item = Some p \<and> name_ar p = Some a \<and> a \<noteq> []
      \<longrightarrow> productName item = a) \<and>
   (\<forall>item p b. products item = Some p \<and> \<not> truthy (name_ar p) \<and> name_en p = Some b \<and> b \<noteq> []
      \<longrightarrow> productName item = b) \<and>
   (\<forall>item. (case products item of None \<Rightarrow> True
                                  | Some p \<Rightarrow> \<not> truthy (name_ar p) \<and> \<not> truthy (name_en p))
      \<longrightarrow> productName item = ''Unknown Product'') \<and>
   fst ` set (productSales os) = productName ` set (allItems os) \<and>
   set (topProducts os) \<subseteq> snd ` set (productSales os) \<and>
   name ` set (topProducts os) \<subseteq> productName ` set (allItems os) \<and>
   length (topProducts os) = min 5 (card (productName ` set (allItems os))) \<and>
   (\<forall>n \<in> productName ` set (allItems os).
      n \<notin> name ` set (topProducts os) \<longrightarrow>
      (\<forall>k \<in> set (topProducts os).
         sum_list (map (\<lambda>item. price item * quantity item) (itemsNamed n (allItems os))) \<le> sales k))"
proof -
  have len: "length (topProducts os) \<le> 5" by (simp add: topProducts_def)
  have srt: "sorted_wrt (\<lambda>a b. sales a \<ge> sales b) (topProducts os)"
    unfolding topProducts_def by (rule sorted_wrt_take) (rule sorted_desc_sort_key)
  have dst: "distinct (map name (topProducts os))"
    unfolding topProducts_def take_map[symmetric]
    by (rule distinct_take) (rule distinct_map_sort_key, rule distinct_names_productSales)
  have sub: "set (topProducts os) \<subseteq> set (map snd (productSales os))"
    unfolding topProducts_def
    using set_take_subset[of 5 "sort_key (\<lambda>e. - sales e) (map snd (productSales os))"] by simp
  have acc: "\<forall>e \<in> set (topProducts os).
      sales e = sum_list (map (\<lambda>item. price item * quantity item) (itemsNamed (name e) (allItems os))) \<and>
      quantity' e = sum_list (map quantity (itemsNamed (name e) (allItems os)))"
    using sub productSales_entry by blast
  have ar: "\<forall>item p a. products item = Some p \<and> name_ar p = Some a \<and> a \<noteq> []
      \<longrightarrow> productName item = a"
    by (simp add: productName_cases truthy_def)
  have en: "\<forall>item p b. products item = Some p \<and> \<not> truthy (name_ar p) \<and> name_en p = Some b \<and> b \<noteq> []
      \<longrightarrow> productName item = b"
    by (simp add: productName_cases truthy_def)
  have un: "\<forall>item. (case products item of None \<Rightarrow> True
                                  | Some p \<Rightarrow> \<not> truthy (name_ar p) \<and> \<not> truthy (name_en p))
      \<longrightarrow> productName item = ''Unknown Product''"
    by (simp add: productName_cases split: option.splits)
  have keys: "fst ` set (productSales os) = productName ` set (allItems os)"
    by (rule keys_productSales)
  have ent: "set (topProducts os) \<subseteq> snd ` set (productSales os)"
    using sub by simp
  have nms: "name ` set (topProducts os) \<subseteq> productName ` set (allItems os)"
    by (rule names_topProducts)
  have cnt: "length (topProducts os) = min 5 (card (productName ` set (allItems os)))"
    by (rule length_topProducts)
  have drp: "\<forall>n \<in> productName ` set (allItems os).
      n \<notin> name ` set (topProducts os) \<longrightarrow>
      (\<forall>k \<in> set (topProducts os).
         sum_list (map (\<lambda>item. price item * quantity item) (itemsNamed n (allItems os))) \<le> sales k)"
    using dropped_le_kept by blast
  from len srt dst acc ar en un keys ent nms cnt drp show ?thesis by (intro conjI)
qed

lemma topProducts_twoOrders:
  "topProducts twoOrders =
     [\<lparr> name = ''B'', sales = 180, quantity' = 3 \<rparr>,
      \<lparr> name = ''A'', sales = 150, quantity' = 3 \<rparr>,
      \<lparr> name = ''Unknown Product'', sales = 5, quantity' = 1 \<rparr>]"
  by (simp add: topProducts_def productSales_def twoOrders_def addOrder_def addItem_def
      productName_def item_A1_def item_A2_def item_B3_def item_U1_def)

lemma allItems_twoOrders: "allItems twoOrders = [item_A2, item_B3, item_A1, item_U1]"
  by (simp add: allItems_def twoOrders_def)

lemma topProducts_sixNames:
  "topProducts sixNames =
     [\<lparr> name = ''P6'', sales = 12, quantity' = 2 \<rparr>,
      \<lparr> name = ''P5'', sales = 5, quantity' = 1 \<rparr>,
      \<lparr> name = ''P4'', sales = 4, quantity' = 1 \<rparr>,
      \<lparr> name = ''P3'', sales = 3, quantity' = 1 \<rparr>,
      \<lparr> name = ''P2'', sales = 2, quantity' = 1 \<rparr>]"
  by (simp add: topProducts_def productSales_def sixNames_def addOrder_def addItem_def
      productName_def pricedItem_def)

lemma names_sixNames:
  "productName ` set (allItems sixNames) = {''P1'', ''P2'', ''P3'', ''P4'', ''P5'', ''P6''}"
  by (auto simp: allItems_def sixNames_def productName_def pricedItem_def)

lemma card_sixNames: "card (productName ` set (allItems sixNames)) = 6"
  by (simp add: names_sixNames)

lemma P1_sixNames:
  "itemsNamed ''P1'' (allItems sixNames) = [pricedItem ''P1'' 1 1]"
  by (simp add: allItems_def sixNames_def itemsNamed_def productName_def pricedItem_def)

text \<open>
  On the six names the ranking keeps the five best sellers P6, P5, P4, P3, P2 and leaves
  out P1, whose sales of 1 are below those of P2; the entry of P6 adds up its two items.
  On the two orders of three names the ranking is B (180), A (150), the placeholder (5):
  the item with an empty Arabic name counts for B.
\<close>

theorem topProducts_spec_witness:
  "topProducts sixNames =
     [\<lparr> name = ''P6'', sales = 12, quantity' = 2 \<rparr>,
      \<lparr> name = ''P5'', sales = 5, quantity' = 1 \<rparr>,
      \<lparr> name = ''P4'', sales = 4, quantity' = 1 \<rparr>,
      \<lparr> name = ''P3'', sales = 3, quantity' = 1 \<rparr>,
      \<lparr> name = ''P2'', sales = 2, quantity' = 1 \<rparr>] \<and>
   card (productName ` set (allItems sixNames)) = 6 \<and>
   length (topProducts sixNames) = min 5 (card (productName ` set (allItems sixNames))) \<and>
   ''P1'' \<in> productName ` set (allItems sixNames) \<and>
   ''P1'' \<notin> name ` set (topProducts sixNames) \<and>
   \<lparr> name = ''P2'', sales = 2, quantity' = 1 \<rparr> \<in> set (topProducts sixNames) \<and>
   sum_list (map (\<lambda>item. price item * quantity item) (itemsNamed ''P1'' (allItems sixNames)))
     \<le> sales \<lparr> name = ''P2'', sales = 2, quantity' = 1 \<rparr> \<and>
   \<lparr> name = ''P6'', sales = 12, quantity' = 2 \<rparr> \<in> set (topProducts sixNames) \<and>
   (12::real) = sum_list (map (\<lambda>item. price item * quantity item) (itemsNamed ''P6'' (allItems sixNames))) \<and>
   topProducts twoOrders =
     [\<lparr> name = ''B'', sales = 180, quantity' = 3 \<rparr>,
      \<lparr> name = ''A'', sales = 150, quantity' = 3 \<rparr>,
      \<lparr> name = ''Unknown Product'', sales = 5, quantity' = 1 \<rparr>] \<and>
   productName item_B3 = ''B'' \<and> productName item_U1 = ''Unknown Product''"
proof -
  let ?P2 = "\<lparr> name = ''P2'', sales = 2, quantity' = 1 \<rparr>"
  let ?P6 = "\<lparr> name = ''P6'', sales = 12, quantity' = 2 \<rparr>"
  note six = topProducts_spec [of sixNames]
  note two = topProducts_spec [of twoOrders]
  have cnt: "length (topProducts sixNames) = min 5 (card (productName ` set (allItems sixNames)))"
    using six by - (elim conjE, assumption)
  have inN: "''P1'' \<in> productName ` set (allItems sixNames)"
    by (simp add: names_sixNames)
  have out: "''P1'' \<notin> name ` set (topProducts sixNames)"
    by (simp add: topProducts_sixNames)
  have kept: "?P2 \<in> set (topProducts sixNames)"
    by (simp add: topProducts_sixNames)
  have drp: "\<forall>n \<in> productName ` set (allItems sixNames).
      n \<notin> name ` set (topProducts sixNames) \<longrightarrow>
      (\<forall>k \<in> set (topProducts sixNames).
         sum_list (map (\<lambda>item. price item * quantity item) (itemsNamed n (allItems sixNames))) \<le> sales k)"
    using six by - (elim conjE, assumption)
  from drp inN out kept have low:
    "sum_list (map (\<lambda>item. price item * quantity item) (itemsNamed ''P1'' (allItems sixNames)))
       \<le> sales ?P2"
    by blast
  have best: "?P6 \<in> set (topProducts sixNames)"
    by (simp add: topProducts_sixNames)
  have acc: "\<forall>e \<in> set (topProducts sixNames).
      sales e = sum_list (map (\<lambda>item. price item * quantity item) (itemsNamed (name e) (allItems sixNames))) \<and>
      quantity' e = sum_list (map quantity (itemsNamed (name e) (allItems sixNames)))"
    using six by - (elim conjE, assumption)
  from acc best have
    "sales ?P6 = sum_list (map (\<lambda>item. price item * quantity item) (itemsNamed (name ?P6) (allItems sixNames)))"
    by blast
  then have sum: "(12::real) = sum_list (map (\<lambda>item. price item * quantity item) (itemsNamed ''P6'' (allItems sixNames)))"
    by simp
  have b: "productName item_B3 = ''B''"
  proof -
    let ?p = "\<lparr> name_ar = Some [], name_en = Some ''B'' \<rparr>"
    have "\<forall>item p b. products item = Some p \<and> \<not> truthy (name_ar p) \<and> name_en p = Some b \<and> b \<noteq> []
      \<longrightarrow> productName item = b"
      using two by - (elim conjE, assumption)
    then have
      "products item_B3 = Some ?p \<and> \<not> truthy (name_ar ?p) \<and> name_en ?p = Some ''B'' \<and> ''B'' \<noteq> []
         \<longrightarrow> productName item_B3 = ''B''"
      by blast
    then show ?thesis by (simp add: item_B3_def truthy_def)
  qed
  have u: "productName item_U1 = ''Unknown Product''"
  proof -
    have "\<forall>item. (case products item of None \<Rightarrow> True
                                  | Some p \<Rightarrow> \<not> truthy (name_ar p) \<and> \<not> truthy (name_en p))
      \<longrightarrow> productName item = ''Unknown Product''"
      using two by - (elim conjE, assumption)
    then have
      "(case products item_U1 of None \<Rightarrow> True
        | Some p \<Rightarrow> \<not> truthy (name_ar p) \<and> \<not> truthy (name_en p))
         \<longrightarrow> productName item_U1 = ''Unknown Product''"
      by blast
    then show ?thesis by (simp add: item_U1_def)
  qed
  from topProducts_sixNames card_sixNames cnt inN out kept low best sum
       topProducts_twoOrders b u
  show ?thesis by (intro conjI)
qed

section \<open>Properties of the product repository\<close>

lemma filePathOf_nonempty: "filePathOf p = Some f \<Longrightarrow> f \<noteq> []"
  by (induction p) (auto simp: Let_def split: if_splits)

lemma removals_Cons:
  "removals pathname (u # urls) =
     (case pathname u of
        None \<Rightarrow> removals pathname urls
      | Some p \<Rightarrow> (case filePathOf p of None \<Rightarrow> removals pathname urls
                                     | Some f \<Rightarrow> f # removals pathname urls))"
  by (simp add: removals_def List.map_filter_simps split: option.splits)

lemma removals_Nil: "removals pathname [] = []"
  by (simp add: removals_def List.map_filter_simps)

lemma removeImages_all_parse:
  "\<forall>u \<in> set urls. pathname u \<noteq> None \<Longrightarrow>
   removeImages pathname be urls w =
     (Inr (), w\<lparr> trace := trace w @ map StorageRemove (removals pathname urls),
                 console := console w @ removalLog be (trace w) (removals pathname urls) \<rparr>)"
proof (induction urls arbitrary: w)
  case Nil
  show ?case by (simp add: removals_Nil)
next
  case (Cons u urls)
  from Cons.prems obtain p where p: "pathname u = Some p" by auto
  from Cons.prems have rest: "\<forall>u \<in> set urls. pathname u \<noteq> None" by simp
  show ?case
  proof (cases "filePathOf p")
    case None
    with p Cons.IH[OF rest] show ?thesis by (simp add: removals_Cons)
  next
    case (Some f)
    then have "f \<noteq> []" by (rule filePathOf_nonempty)
    with p Some Cons.IH[OF rest] show ?thesis
      by (simp add: removals_Cons send_def console_error_def split: sum.splits)
  qed
qed

lemma removalLog_mem:
  "k < length fs \<Longrightarrow> storage_remove be (tr @ map StorageRemove (take k fs)) (fs ! k) = Inl e \<Longrightarrow>
   LogRemoveImage e \<in> set (removalLog be tr fs)"
proof (induction fs arbitrary: tr k)
  case Nil
  then show ?case by simp
next
  case (Cons f fs)
  show ?case
  proof (cases k)
    case 0
    with Cons.prems show ?thesis by simp
  next
    case (Suc j)
    with Cons.prems have "j < length fs"
      and "storage_remove be ((tr @ [StorageRemove f]) @ map StorageRemove (take j fs)) (fs ! j) = Inl e"
      by simp_all
    then have "LogRemoveImage e \<in> set (removalLog be (tr @ [StorageRemove f]) fs)"
      by (rule Cons.IH)
    then show ?thesis by simp
  qed
qed

lemma deleteProduct_all_parse:
  assumes fetch: "products_select_image_url be (trace w) ident = Inr (Some urls)"
      and parse: "\<forall>u \<in> set urls. pathname u \<noteq> None"
  shows "deleteProduct pathname be ident w =
     ((case products_delete be
              (trace w @ ProductsSelectImageUrl ident # map StorageRemove (removals pathname urls)) ident of
         Inl deleteError \<Rightarrow> Inl DeleteFailed
       | Inr u \<Rightarrow> Inr ()),
      w\<lparr> trace := trace w @ ProductsSelectImageUrl ident
                     # map StorageRemove (removals pathname urls) @ [ProductsDelete ident],
         console := console w
                     @ removalLog be (trace w @ [ProductsSelectImageUrl ident]) (removals pathname urls) \<rparr>)"
proof -
  let ?w1 = "send (ProductsSelectImageUrl ident) w"
  have loop: "removeImages pathname be urls ?w1 =
     (Inr (), ?w1\<lparr> trace := trace ?w1 @ map StorageRemove (removals pathname urls),
                 console := console ?w1 @ removalLog be (trace ?w1) (removals pathname urls) \<rparr>)"
    using parse by (rule removeImages_all_parse)
  show ?thesis
  proof (cases "urls = []")
    case True
    then show ?thesis
      using fetch by (simp add: deleteProduct_def deleteRow_def send_def removals_Nil split: sum.splits)
  next
    case False
    then show ?thesis
      using fetch loop by (simp add: deleteProduct_def deleteRow_def send_def split: sum.splits)
  qed
qed

text \<open>
  Claim C7, amended. When the fetch of the image list succeeds and every stored string
  parses as an absolute URL, the operation sends the fetch, then one removal for each
  stored URL that matches, in the stored order and whatever the removals before it
  replied, then the delete of the row. Every failed removal is logged and changes nothing
  else. The operation fails exactly when the delete of the row fails.
\<close>

theorem deleteProduct_removal_failures:
  assumes fetch: "products_select_image_url be (trace w) ident = Inr (Some urls)"
      and parse: "\<forall>u \<in> set urls. pathname u \<noteq> None"
  shows "deleteProduct pathname be ident w =
     ((case products_delete be
              (trace w @ ProductsSelectImageUrl ident # map StorageRemove (removals pathname urls)) ident of
         Inl deleteError \<Rightarrow> Inl DeleteFailed
       | Inr u \<Rightarrow> Inr ()),
      w\<lparr> trace := trace w @ ProductsSelectImageUrl ident
                     # map StorageRemove (removals pathname urls) @ [ProductsDelete ident],
         console := console w
                     @ removalLog be (trace w @ [ProductsSelectImageUrl ident]) (removals pathname urls) \<rparr>)
   \<and> (\<forall>k e. k < length (removals pathname urls) \<and>
            storage_remove be
              ((trace w @ [ProductsSelectImageUrl ident])
                 @ map StorageRemove (take k (removals pathname urls)))
              (removals pathname urls ! k) = Inl e
          \<longrightarrow> LogRemoveImage e \<in> set (console (snd (deleteProduct pathname be ident w))))"
  unfolding deleteProduct_all_parse [OF fetch parse] using removalLog_mem by auto

text \<open>
  Three stored images, the removal of the second fails: the three removals and the delete
  of the row are sent, one line is logged, and the operation succeeds.
\<close>

theorem deleteProduct_removal_failures_witness:
  "deleteProduct pathname0
     (backend_ok\<lparr> products_select_image_url := (\<lambda>tr i. Inr (Some [url_a, url_b, url_c])),
                  storage_remove := (\<lambda>tr f. if f = ''products/b.png'' then Inl err0 else Inr ()) \<rparr>)
     ''p1'' w0 =
   (Inr (),
    \<lparr> trace = [ProductsSelectImageUrl ''p1'', StorageRemove ''products/a.png'',
                StorageRemove ''products/b.png'', StorageRemove ''products/c.png'',
                ProductsDelete ''p1''],
      console = [LogRemoveImage err0] \<rparr>)"
proof -
  let ?be = "backend_ok\<lparr> products_select_image_url := (\<lambda>tr i. Inr (Some [url_a, url_b, url_c])),
                  storage_remove := (\<lambda>tr f. if f = ''products/b.png'' then Inl err0 else Inr ()) \<rparr>"
  have fetch: "products_select_image_url ?be (trace w0) ''p1'' = Inr (Some [url_a, url_b, url_c])"
    by simp
  have parse: "\<forall>u \<in> set [url_a, url_b, url_c]. pathname0 u \<noteq> None"
    by (simp add: pathname0_def startsWith_def url_a_def url_b_def url_c_def)
  have paths: "removals pathname0 [url_a, url_b, url_c]
      = [''products/a.png'', ''products/b.png'', ''products/c.png'']"
    by (simp add: removals_def List.map_filter_simps pathname0_def startsWith_def
        url_a_def url_b_def url_c_def publicPrefix_def dot_def Let_def)
  from deleteProduct_removal_failures [OF fetch parse]
  show ?thesis
    by (simp add: paths w0_def backend_ok_def)
qed

text \<open>
  The claim as stated fails when a stored string is not an absolute URL: after the
  failed removal of the first image the relative path makes \<^verbatim>\<open>new URL\<close> throw, the
  third image is not removed and the row is not deleted.
\<close>

theorem deleteProduct_removal_failure_then_invalid_url:
  "deleteProduct pathname0
     (backend_ok\<lparr> products_select_image_url := (\<lambda>tr i. Inr (Some [url_a, relative_path, url_c])),
                  storage_remove := (\<lambda>tr f. if f = ''products/a.png'' then Inl err0 else Inr ()) \<rparr>)
     ''p1'' w0 =
   (Inl InvalidURL,
    \<lparr> trace = [ProductsSelectImageUrl ''p1'', StorageRemove ''products/a.png''],
      console = [LogRemoveImage err0] \<rparr>)"
  by (simp add: deleteProduct_def send_def console_error_def w0_def backend_ok_def
      pathname0_def startsWith_def url_a_def url_c_def relative_path_def
      publicPrefix_def dot_def Let_def)

lemma removeImages_select_irrelevant:
  "removeImages pathname (be\<lparr> products_select_image_url := f \<rparr>) urls w
     = removeImages pathname be urls w"
  by (induction urls arbitrary: w) (simp_all add: Let_def split: option.splits sum.splits)

lemma deleteRow_select_irrelevant:
  "deleteRow (be\<lparr> products_select_image_url := f \<rparr>) ident w = deleteRow be ident w"
  by (simp add: deleteRow_def)

lemma removeImages_skip:
  assumes "pathname u = Some p" and "filePathOf p = None"
  shows "removeImages pathname be (us @ u # vs) w = removeImages pathname be (us @ vs) w"
  using assms by (induction us arbitrary: w) (simp_all add: Let_def split: option.splits sum.splits)

lemma removals_skip:
  assumes "pathname u = Some p" and "filePathOf p = None"
  shows "removals pathname (us @ u # vs) = removals pathname (us @ vs)"
  using assms by (induction us) (simp_all add: removals_Cons split: option.splits)

text \<open>
  Claim C9, amended. A stored URL whose path does not match the pattern has no effect:
  the operation sends the same requests, logs the same lines and ends the same way as
  for the stored list without that URL. When every stored string parses as an absolute
  URL, these requests are the fetch, the removals of the other URLs that match, and the
  delete of the row, and the lines logged are those of the failed removals.
\<close>

theorem deleteProduct_skips_unmatched_url:
  assumes fetch: "products_select_image_url be (trace w) ident = Inr (Some (us @ u # vs))"
      and path: "pathname u = Some p"
      and nomatch: "filePathOf p = None"
  shows "deleteProduct pathname be ident w
           = deleteProduct pathname
               (be\<lparr> products_select_image_url := (\<lambda>tr i. Inr (Some (us @ vs))) \<rparr>) ident w
   \<and> ((\<forall>x \<in> set (us @ vs). pathname x \<noteq> None) \<longrightarrow>
        trace (snd (deleteProduct pathname be ident w))
          = trace w @ ProductsSelectImageUrl ident
              # map StorageRemove (removals pathname (us @ vs)) @ [ProductsDelete ident]
        \<and> console (snd (deleteProduct pathname be ident w))
          = console w @ removalLog be (trace w @ [ProductsSelectImageUrl ident])
                          (removals pathname (us @ vs)))"
proof (intro conjI impI)
  let ?w1 = "send (ProductsSelectImageUrl ident) w"
  have skip: "removeImages pathname be (us @ u # vs) ?w1 = removeImages pathname be (us @ vs) ?w1"
    using path nomatch by (rule removeImages_skip)
  show "deleteProduct pathname be ident w
           = deleteProduct pathname
               (be\<lparr> products_select_image_url := (\<lambda>tr i. Inr (Some (us @ vs))) \<rparr>) ident w"
  proof (cases "us @ vs = []")
    case True
    with fetch skip show ?thesis
      by (simp add: deleteProduct_def deleteRow_select_irrelevant)
  next
    case False
    with fetch skip show ?thesis
      by (simp add: deleteProduct_def deleteRow_select_irrelevant
          removeImages_select_irrelevant split: prod.splits sum.splits)
  qed
next
  assume others: "\<forall>x \<in> set (us @ vs). pathname x \<noteq> None"
  with path have parse: "\<forall>x \<in> set (us @ u # vs). pathname x \<noteq> None" by auto
  have same: "removals pathname (us @ u # vs) = removals pathname (us @ vs)"
    using path nomatch by (rule removals_skip)
  note eq = deleteProduct_all_parse [OF fetch parse, unfolded same]
  show "trace (snd (deleteProduct pathname be ident w))
          = trace w @ ProductsSelectImageUrl ident
              # map StorageRemove (removals pathname (us @ vs)) @ [ProductsDelete ident]"
    by (simp add: eq)
  show "console (snd (deleteProduct pathname be ident w))
          = console w @ removalLog be (trace w @ [ProductsSelectImageUrl ident])
                          (removals pathname (us @ vs))"
    by (simp add: eq)
qed

text \<open>
  Between two stored images an URL of another site: the operation is the one for the two
  images alone, and sends their removals and the delete of the row.
\<close>

theorem deleteProduct_skips_unmatched_url_witness:
  "deleteProduct pathname0
     (backend_ok\<lparr> products_select_image_url := (\<lambda>tr i. Inr (Some [url_a, url_other, url_c])) \<rparr>)
     ''p1'' w0
   = deleteProduct pathname0
       (backend_ok\<lparr> products_select_image_url := (\<lambda>tr i. Inr (Some [url_a, url_c])) \<rparr>)
       ''p1'' w0
   \<and> trace (snd (deleteProduct pathname0
       (backend_ok\<lparr> products_select_image_url := (\<lambda>tr i. Inr (Some [url_a, url_other, url_c])) \<rparr>)
       ''p1'' w0))
     = [ProductsSelectImageUrl ''p1'', StorageRemove ''products/a.png'',
        StorageRemove ''products/c.png'', ProductsDelete ''p1'']
   \<and> console (snd (deleteProduct pathname0
       (backend_ok\<lparr> products_select_image_url := (\<lambda>tr i. Inr (Some [url_a, url_other, url_c])) \<rparr>)
       ''p1'' w0)) = []"
proof -
  let ?be = "backend_ok\<lparr> products_select_image_url := (\<lambda>tr i. Inr (Some [url_a, url_other, url_c])) \<rparr>"
  have fetch: "products_select_image_url ?be (trace w0) ''p1'' = Inr (Some ([url_a] @ url_other # [url_c]))"
    by simp
  have path: "pathname0 url_other = Some ''/img/d.png''"
    by (simp add: pathname0_def startsWith_def url_other_def)
  have nomatch: "filePathOf ''/img/d.png'' = None"
    by (simp add: startsWith_def publicPrefix_def)
  have others: "\<forall>x \<in> set ([url_a] @ [url_c]). pathname0 x \<noteq> None"
    by (simp add: pathname0_def startsWith_def url_a_def url_c_def)
  have paths: "removals pathname0 ([url_a] @ [url_c]) = [''products/a.png'', ''products/c.png'']"
    by (simp add: removals_def List.map_filter_simps pathname0_def startsWith_def
        url_a_def url_c_def publicPrefix_def dot_def Let_def)
  have upd: "?be\<lparr> products_select_image_url := (\<lambda>tr i. Inr (Some ([url_a] @ [url_c]))) \<rparr>
      = backend_ok\<lparr> products_select_image_url := (\<lambda>tr i. Inr (Some [url_a, url_c])) \<rparr>"
    by simp
  note spec = deleteProduct_skips_unmatched_url
         [of ?be w0 "''p1''" "[url_a]" url_other "[url_c]" pathname0 "''/img/d.png''",
          OF fetch path nomatch, unfolded upd paths]
  from spec have same: "deleteProduct pathname0 ?be ''p1'' w0
      = deleteProduct pathname0
          (backend_ok\<lparr> products_select_image_url := (\<lambda>tr i. Inr (Some [url_a, url_c])) \<rparr>)
          ''p1'' w0"
    by (rule conjunct1)
  from spec others have sent: "trace (snd (deleteProduct pathname0 ?be ''p1'' w0))
      = trace w0 @ ProductsSelectImageUrl ''p1''
          # map StorageRemove [''products/a.png'', ''products/c.png''] @ [ProductsDelete ''p1'']"
    and logged: "console (snd (deleteProduct pathname0 ?be ''p1'' w0))
      = console w0 @ removalLog ?be (trace w0 @ [ProductsSelectImageUrl ''p1''])
          [''products/a.png'', ''products/c.png'']"
    by blast+
  have sent': "trace (snd (deleteProduct pathname0 ?be ''p1'' w0))
     = [ProductsSelectImageUrl ''p1'', StorageRemove ''products/a.png'',
        StorageRemove ''products/c.png'', ProductsDelete ''p1'']"
    unfolding sent by (simp add: w0_def)
  have logged': "console (snd (deleteProduct pathname0 ?be ''p1'' w0)) = []"
    unfolding logged by (simp add: w0_def backend_ok_def)
  from same sent' logged' show ?thesis by (intro conjI)
qed

text \<open>
  The claim as stated fails when another stored string is not an absolute URL: the URL
  of the other site is skipped, then the relative path makes \<^verbatim>\<open>new URL\<close> throw,
  and the delete of the row is never sent.
\<close>

theorem deleteProduct_unmatched_then_invalid_url:
  "deleteProduct pathname0
     (backend_ok\<lparr> products_select_image_url := (\<lambda>tr i. Inr (Some [url_other, relative_path])) \<rparr>)
     ''p1'' w0 =
   (Inl InvalidURL, \<lparr> trace = [ProductsSelectImageUrl ''p1''], console = [] \<rparr>)"
  by (simp add: deleteProduct_def send_def w0_def backend_ok_def
      pathname0_def startsWith_def url_other_def relative_path_def publicPrefix_def)

text \<open>
  Claim C6. When the fetch of the image list fails, the operation fails: the fetch is
  the only request it sends, so no image is removed and the row is not deleted; the
  failure of the fetch is logged.
\<close>

theorem deleteProduct_fetch_failure:
  assumes "products_select_image_url be (trace w) ident = Inl fetchError"
  shows "deleteProduct pathname be ident w =
     (Inl FetchFailed,
      w\<lparr> trace := trace w @ [ProductsSelectImageUrl ident],
         console := console w @ [LogFetch fetchError] \<rparr>)"
  using assms by (simp add: deleteProduct_def send_def console_error_def)

text \<open>A backend that fails the fetch: the fetch is sent and logged, and nothing else.\<close>

theorem deleteProduct_fetch_failure_witness:
  "deleteProduct pathname0
     (backend_ok\<lparr> products_select_image_url := (\<lambda>tr i. Inl err0) \<rparr>) ''p1'' w0 =
   (Inl FetchFailed, \<lparr> trace = [ProductsSelectImageUrl ''p1''], console = [LogFetch err0] \<rparr>)"
proof -
  let ?be = "backend_ok\<lparr> products_select_image_url := (\<lambda>tr i. Inl err0) \<rparr>"
  have fetch: "products_select_image_url ?be (trace w0) ''p1'' = Inl err0"
    by simp
  from deleteProduct_fetch_failure [OF fetch, of pathname0]
  show ?thesis by (simp add: w0_def)
qed

text \<open>
  Claim C2. When the insert of the product row succeeds and the insert of the supplied
  attribute rows fails, the operation returns the created row; it has sent the two
  inserts and nothing else, so the created row is left in place, and the failure is
  logged. When the insert of the product row fails, the operation fails, having sent
  that insert only.
\<close>

theorem createProduct_partial_failure:
  "(products_insert be (trace w) (without_attributes productData) = Inr createdProduct \<and>
    attributes productData = Some attrs \<and> attrs \<noteq> [] \<and>
    attributes_insert be (trace w @ [ProductsInsert (without_attributes productData)])
      (map (\<lambda>attr. attr\<lparr> product_id := id' createdProduct \<rparr>) attrs) = Inl attributesError
    \<longrightarrow> createProduct be productData w =
          (Inr createdProduct,
           w\<lparr> trace := trace w @
                  [ProductsInsert (without_attributes productData),
                   AttributesInsert (map (\<lambda>attr. attr\<lparr> product_id := id' createdProduct \<rparr>) attrs)],
              console := console w @ [LogCreateAttributes attributesError] \<rparr>))
   \<and>
   (products_insert be (trace w) (without_attributes productData) = Inl productError
    \<longrightarrow> createProduct be productData w =
          (Inl CreateFailed,
           w\<lparr> trace := trace w @ [ProductsInsert (without_attributes productData)],
              console := console w @ [LogCreateProduct productError] \<rparr>))"
  by (simp add: createProduct_def send_def console_error_def Let_def)

lemma row0_insert:
  "products_insert backend_ok tr (without_attributes product0) = Inr row0"
  by (simp add: backend_ok_def row0_def without_attributes_def)

text \<open>
  One attribute supplied: with a failing attribute insert the row p1 is returned and the
  failure logged; with a failing product insert nothing but that insert is sent.
\<close>

theorem createProduct_partial_failure_witness:
  "createProduct (backend_ok\<lparr> attributes_insert := (\<lambda>tr rows. Inl err0) \<rparr>) product0 w0 =
     (Inr row0,
      \<lparr> trace = [ProductsInsert (without_attributes product0),
                  AttributesInsert [attr0\<lparr> product_id := Some ''p1'' \<rparr>]],
        console = [LogCreateAttributes err0] \<rparr>)
   \<and> createProduct (backend_ok\<lparr> products_insert := (\<lambda>tr p. Inl err0) \<rparr>) product0 w0 =
     (Inl CreateFailed,
      \<lparr> trace = [ProductsInsert (without_attributes product0)],
        console = [LogCreateProduct err0] \<rparr>)"
proof -
  let ?be1 = "backend_ok\<lparr> attributes_insert := (\<lambda>tr rows. Inl err0) \<rparr>"
  let ?be2 = "backend_ok\<lparr> products_insert := (\<lambda>tr p. Inl err0) \<rparr>"
  have ins: "products_insert ?be1 (trace w0) (without_attributes product0) = Inr row0"
    by (simp add: row0_insert)
  have attrs: "attributes product0 = Some [attr0]"
    by (simp add: product0_def)
  have fail1: "attributes_insert ?be1 (trace w0 @ [ProductsInsert (without_attributes product0)])
      (map (\<lambda>attr. attr\<lparr> product_id := id' row0 \<rparr>) [attr0]) = Inl err0"
    by simp
  have fail2: "products_insert ?be2 (trace w0) (without_attributes product0) = Inl err0"
    by simp
  have ident: "id' row0 = Some ''p1''"
    by (simp add: row0_def)
  from createProduct_partial_failure
         [of ?be1 w0 product0 row0 "[attr0]" err0 err0] ins attrs fail1
  have one: "createProduct ?be1 product0 w0 =
     (Inr row0,
      \<lparr> trace = [ProductsInsert (without_attributes product0),
                  AttributesInsert [attr0\<lparr> product_id := Some ''p1'' \<rparr>]],
        console = [LogCreateAttributes err0] \<rparr>)"
    by (simp add: w0_def ident)
  from createProduct_partial_failure
         [of ?be2 w0 product0 row0 "[attr0]" err0 err0] fail2
  have two: "createProduct ?be2 product0 w0 =
     (Inl CreateFailed,
      \<lparr> trace = [ProductsInsert (without_attributes product0)],
        console = [LogCreateProduct err0] \<rparr>)"
    by (simp add: w0_def)
  from one two show ?thesis by simp
qed





text \<open>
  What an update with an attributes property does once the row update has succeeded: it
  sends the delete of the old attribute rows, then the insert of the new ones when there
  are any, and returns the updated row. Only a failed insert is logged: the reply to the
  delete occurs nowhere in the outcome.
\<close>

lemma updateProduct_attributes_replaced:
  assumes upd: "products_update be (trace w) ident (without_attributes updatedProduct) = Inr data"
      and attrs: "attributes updatedProduct = Some attrs"
  shows "fst (updateProduct be ident updatedProduct w) = Inr data
   \<and> trace (snd (updateProduct be ident updatedProduct w)) =
       trace w @ [ProductsUpdate ident (without_attributes updatedProduct), AttributesDelete ident]
         @ (if attrs = [] then []
            else [AttributesInsert (map (\<lambda>attr. attr\<lparr> product_id := Some ident \<rparr>) attrs)])
   \<and> console (snd (updateProduct be ident updatedProduct w)) =
       console w
         @ (if attrs = [] then []
            else case attributes_insert be
                        (trace w @ [ProductsUpdate ident (without_attributes updatedProduct),
                                    AttributesDelete ident])
                        (map (\<lambda>attr. attr\<lparr> product_id := Some ident \<rparr>) attrs) of
                   Inl attributesError \<Rightarrow> [LogUpdateAttributes attributesError]
                 | Inr u \<Rightarrow> [])"
  using upd attrs
  by (simp add: updateProduct_def Let_def send_def console_error_def split: sum.splits)

text \<open>
  Claim C8 at a failing delete of the old attribute rows. The row update succeeds and one
  new attribute is supplied. The reply to the delete is an error; the operation sends the
  insert all the same, returns the updated row and logs nothing. When the insert fails
  instead, the failure is logged.
\<close>

theorem updateProduct_delete_failure_not_logged:
  "attributes_delete (backend_ok\<lparr> attributes_delete := (\<lambda>tr i. Inl err0) \<rparr>)
     [ProductsUpdate ''p1'' (without_attributes update0)] ''p1'' = Inl err0
   \<and> updateProduct (backend_ok\<lparr> attributes_delete := (\<lambda>tr i. Inl err0) \<rparr>) ''p1'' update0 w0 =
     (Inr row0,
      \<lparr> trace = [ProductsUpdate ''p1'' (without_attributes update0), AttributesDelete ''p1'',
                  AttributesInsert [attr0\<lparr> product_id := Some ''p1'' \<rparr>]],
        console = [] \<rparr>)
   \<and> updateProduct (backend_ok\<lparr> attributes_insert := (\<lambda>tr rows. Inl err0) \<rparr>) ''p1'' update0 w0 =
     (Inr row0,
      \<lparr> trace = [ProductsUpdate ''p1'' (without_attributes update0), AttributesDelete ''p1'',
                  AttributesInsert [attr0\<lparr> product_id := Some ''p1'' \<rparr>]],
        console = [LogUpdateAttributes err0] \<rparr>)"
  by (simp add: updateProduct_def Let_def send_def console_error_def w0_def backend_ok_def
      update0_def without_attributes_def)

section \<open>Properties of the monthly series\<close>

text \<open>
  On every host and at every instant the series has six entries, the entry at position
  \<open>k\<close> being the one computed in step \<open>5 - k\<close>; an entry sums and counts the orders
  whose \<^verbatim>\<open>created_at\<close> starts with the key of its step.
\<close>

lemma salesByMonth_shape:
  "length (salesByMonth h now os) = 6
   \<and> (\<forall>k < 6. salesByMonth h now os ! k = monthBucket h now os (5 - k))
   \<and> (\<forall>i. revenue (monthBucket h now os i) = sum_list (map total_price (monthOrders h now os i))
          \<and> orders (monthBucket h now os i) = length (monthOrders h now os i)
          \<and> month (monthBucket h now os i) = toLocaleDateString h (bucketDate h now i))
   \<and> (\<forall>i order. order \<in> set (monthOrders h now os i) \<longleftrightarrow>
          order \<in> set os \<and> (\<exists>c. created_at order = Some c \<and> startsWith c (monthKey h now i)))"
proof (intro conjI allI impI)
  show "length (salesByMonth h now os) = 6"
    by (simp add: salesByMonth_def)
next
  fix k :: nat assume "k < 6"
  then show "salesByMonth h now os ! k = monthBucket h now os (5 - k)"
    by (simp add: salesByMonth_def rev_nth)
next
  fix i
  show "revenue (monthBucket h now os i) = sum_list (map total_price (monthOrders h now os i))"
    by (simp add: monthBucket_def foldl_add_sum_list)
  show "orders (monthBucket h now os i) = length (monthOrders h now os i)"
    by (simp add: monthBucket_def)
  show "month (monthBucket h now os i) = toLocaleDateString h (bucketDate h now i)"
    by (simp add: monthBucket_def)
next
  fix i order
  show "order \<in> set (monthOrders h now os i) \<longleftrightarrow>
          order \<in> set os \<and> (\<exists>c. created_at order = Some c \<and> startsWith c (monthKey h now i))"
    by (auto simp: monthOrders_def split: option.splits)
qed

lemma bucketDates_march31:
  "map (bucketDate utc_host march31) [0..<6] =
     [1711886400000, 1709380800000, 1706702400000, 1704024000000, 1701432000000, 1698753600000]"
  by code_simp

lemma toISOString_march31:
  "map toISOString
     [1711886400000, 1709380800000, 1706702400000, 1704024000000, 1701432000000, 1698753600000] =
     [''2024-03-31T12:00:00.000Z'', ''2024-03-02T12:00:00.000Z'', ''2024-01-31T12:00:00.000Z'',
      ''2023-12-31T12:00:00.000Z'', ''2023-12-01T12:00:00.000Z'', ''2023-10-31T12:00:00.000Z'']"
  by code_simp

lemma labels_march31:
  "map (toLocaleDateString utc_host)
     [1711886400000, 1709380800000, 1706702400000, 1704024000000, 1701432000000, 1698753600000] =
     [''2024/03'', ''2024/03'', ''2024/01'', ''2023/12'', ''2023/12'', ''2023/10'']"
  by code_simp

lemma monthOrders_march31:
  "map (monthOrders utc_host march31 [februaryOrder]) [0..<6] = [[], [], [], [], [], []]"
  by code_simp

lemma monthKey_fun:
  "monthKey h now = (\<lambda>i. take 7 (toISOString (bucketDate h now i)))"
  by (rule ext) (simp only: monthKey_def)

lemma monthBucket_fun:
  "monthBucket h now os =
     (\<lambda>i. \<lparr> month = toLocaleDateString h (bucketDate h now i),
             revenue = foldl (\<lambda>sum order. sum + total_price order) 0 (monthOrders h now os i),
             orders = length (monthOrders h now os i) \<rparr>)"
  by (rule ext) (simp only: monthBucket_def)

text \<open>
  Claim C1 at noon of 31 March 2024 on a host in UTC. Shifting the month back keeps the
  day of month 31, which February and November do not have, so the dates of the second
  and the fifth step run on into March and December: the six keys name four months,
  neither February 2024 nor November 2023 among them, and an order of February 2024 is
  counted in no entry.
\<close>

theorem salesByMonth_month_end:
  "toISOString march31 = ''2024-03-31T12:00:00.000Z''
   \<and> map (\<lambda>i. toISOString (bucketDate utc_host march31 i)) [0..<6] =
       [''2024-03-31T12:00:00.000Z'', ''2024-03-02T12:00:00.000Z'', ''2024-01-31T12:00:00.000Z'',
        ''2023-12-31T12:00:00.000Z'', ''2023-12-01T12:00:00.000Z'', ''2023-10-31T12:00:00.000Z'']
   \<and> map (monthKey utc_host march31) [0..<6] =
       [''2024-03'', ''2024-03'', ''2024-01'', ''2023-12'', ''2023-12'', ''2023-10'']
   \<and> map month (salesByMonth utc_host march31 [februaryOrder]) =
       [''2023/10'', ''2023/12'', ''2023/12'', ''2024/01'', ''2024/03'', ''2024/03'']
   \<and> map orders (salesByMonth utc_host march31 [februaryOrder]) = [0, 0, 0, 0, 0, 0]
   \<and> map revenue (salesByMonth utc_host march31 [februaryOrder]) = [0, 0, 0, 0, 0, 0]"
proof -
  let ?ds = "[1711886400000, 1709380800000, 1706702400000, 1704024000000, 1701432000000, 1698753600000]"
  have now: "toISOString march31 = ''2024-03-31T12:00:00.000Z''"
    using toISOString_march31 by (simp add: march31_def)
  have iso: "map (\<lambda>i. toISOString (bucketDate utc_host march31 i)) [0..<6] =
       [''2024-03-31T12:00:00.000Z'', ''2024-03-02T12:00:00.000Z'', ''2024-01-31T12:00:00.000Z'',
        ''2023-12-31T12:00:00.000Z'', ''2023-12-01T12:00:00.000Z'', ''2023-10-31T12:00:00.000Z'']"
  proof -
    have "map (\<lambda>i. toISOString (bucketDate utc_host march31 i)) [0..<6]
        = map toISOString (map (bucketDate utc_host march31) [0..<6])"
      by (simp only: map_map comp_def)
    then show ?thesis by (simp only: bucketDates_march31 toISOString_march31)
  qed
  have keys: "map (monthKey utc_host march31) [0..<6] =
       [''2024-03'', ''2024-03'', ''2024-01'', ''2023-12'', ''2023-12'', ''2023-10'']"
  proof -
    have "map (monthKey utc_host march31) [0..<6]
        = map (take 7) (map (\<lambda>i. toISOString (bucketDate utc_host march31 i)) [0..<6])"
      by (simp only: map_map comp_def monthKey_fun)
    then show ?thesis by (simp only: iso) simp
  qed
  have lab: "map month (salesByMonth utc_host march31 [februaryOrder]) =
       [''2023/10'', ''2023/12'', ''2023/12'', ''2024/01'', ''2024/03'', ''2024/03'']"
  proof -
    have "map month (salesByMonth utc_host march31 [februaryOrder])
        = rev (map (toLocaleDateString utc_host) (map (bucketDate utc_host march31) [0..<6]))"
      by (simp only: salesByMonth_def rev_map map_map comp_def monthBucket_fun month_entry.simps)
    then show ?thesis by (simp only: bucketDates_march31 labels_march31) simp
  qed
  have cnt: "map orders (salesByMonth utc_host march31 [februaryOrder]) = [0, 0, 0, 0, 0, 0]"
  proof -
    have "map orders (salesByMonth utc_host march31 [februaryOrder])
        = rev (map length (map (monthOrders utc_host march31 [februaryOrder]) [0..<6]))"
      by (simp only: salesByMonth_def rev_map map_map comp_def monthBucket_fun month_entry.simps)
    then show ?thesis by (simp only: monthOrders_march31) simp
  qed
  have rev: "map revenue (salesByMonth utc_host march31 [februaryOrder]) = [0, 0, 0, 0, 0, 0]"
  proof -
    have "map revenue (salesByMonth utc_host march31 [februaryOrder])
        = rev (map (foldl (\<lambda>sum order. sum + total_price order) 0)
                 (map (monthOrders utc_host march31 [februaryOrder]) [0..<6]))"
      by (simp only: salesByMonth_def rev_map map_map comp_def monthBucket_fun month_entry.simps)
    then show ?thesis by (simp only: monthOrders_march31) simp
  qed
  from now iso keys lab cnt rev show ?thesis by (intro conjI)
qed

end
